theory Spec2Isabelle
  imports Main
begin

section \<open>Python values, exceptions and the built-ins that map\_task.py calls\<close>

text \<open>
  The module \<^verbatim>\<open>flytekit/core/map_task.py\<close> is embedded function by function.
  Exceptions are values: every operation that can raise returns \<open>error + 'a\<close>, with
  \<open>Inl\<close> carrying the exception. The Python values that the module indexes, measures
  and returns are the constructors of \<open>pyval\<close>: \<open>None\<close>, integers, strings, lists and
  tuples.
\<close>

datatype error = TypeError | ValueError | IndexError | KeyError | Raised string

datatype pyval = PNone | PInt int | PStr string | PList "pyval list" | PTuple "pyval list"

text \<open>\<^verbatim>\<open>len(v)\<close>: defined on strings, lists and tuples, a TypeError elsewhere.\<close>

fun py_len :: "pyval \<Rightarrow> error + nat" where
  "py_len (PList xs) = Inr (length xs)"
| "py_len (PTuple xs) = Inr (length xs)"
| "py_len (PStr s) = Inr (length s)"
| "py_len PNone = Inl TypeError"
| "py_len (PInt n) = Inl TypeError"

text \<open>
  \<^verbatim>\<open>xs[i]\<close> on a sequence: a negative index counts from the end, an index outside
  the sequence raises IndexError.
\<close>

definition seq_getitem :: "'a list \<Rightarrow> int \<Rightarrow> error + 'a" where
  "seq_getitem xs i =
     (if 0 \<le> i \<and> i < int (length xs) then Inr (xs ! nat i)
      else if i < 0 \<and> - int (length xs) \<le> i then Inr (xs ! nat (i + int (length xs)))
      else Inl IndexError)"

fun py_getitem :: "pyval \<Rightarrow> int \<Rightarrow> error + pyval" where
  "py_getitem (PList xs) i = seq_getitem xs i"
| "py_getitem (PTuple xs) i = seq_getitem xs i"
| "py_getitem (PStr s) i = (case seq_getitem s i of Inl e \<Rightarrow> Inl e | Inr c \<Rightarrow> Inr (PStr [c]))"
| "py_getitem PNone i = Inl TypeError"
| "py_getitem (PInt n) i = Inl TypeError"

text \<open>
  \<^verbatim>\<open>kwargs[k]\<close> on the keyword dictionary: KeyError for a missing key. The key is
  optional because \<^verbatim>\<open>any_input_key\<close> may be \<^verbatim>\<open>None\<close> in the source; the
  dictionary's keys are strings, so \<^verbatim>\<open>kwargs[None]\<close> is a KeyError.
\<close>

type_synonym kwargs = "string \<rightharpoonup> pyval"

definition dict_getitem :: "kwargs \<Rightarrow> string option \<Rightarrow> error + pyval" where
  "dict_getitem kw k =
     (case k of None \<Rightarrow> Inl KeyError
      | Some key \<Rightarrow> (case kw key of None \<Rightarrow> Inl KeyError | Some v \<Rightarrow> Inr v))"

text \<open>
  \<^verbatim>\<open>d[k] = v\<close> on an insertion-ordered dictionary, kept as an association list:
  an existing key keeps its place, a new key goes last.
\<close>

fun dict_setitem :: "(string \<times> 'a) list \<Rightarrow> string \<Rightarrow> 'a \<Rightarrow> (string \<times> 'a) list" where
  "dict_setitem [] k v = [(k, v)]"
| "dict_setitem ((k', v') # d) k v =
     (if k' = k then (k, v) # d else (k', v') # dict_setitem d k v)"

definition keys :: "(string \<times> 'a) list \<Rightarrow> string list" where
  "keys d = map fst d"

subsection \<open>\<^verbatim>\<open>int(s)\<close> on a string\<close>

text \<open>
  \<^verbatim>\<open>int(s)\<close> strips surrounding whitespace, reads an optional sign and then decimal
  digits, where single underscores may stand between digits; anything else is a
  ValueError. A character of a string stands for the code point of the same number,
  so the strings of the model are the Python strings over the code points below 256.
  On these, the whitespace that \<^verbatim>\<open>int\<close> strips is tab, line feed, vertical tab,
  form feed, carriage return and space, and the two non-ASCII spaces U+0085 and U+00A0;
  the separators 0x1C to 0x1F are not stripped, and no code point from 128 to 255 is a
  decimal digit. The bound that recent interpreters put on the number of digits is left
  out.
\<close>

definition is_space :: "char \<Rightarrow> bool" where
  "is_space c \<longleftrightarrow> c \<in> {CHR 0x09, CHR 0x0A, CHR 0x0B, CHR 0x0C, CHR 0x0D, CHR 0x20,
                       CHR 0x85, CHR 0xA0}"

definition strip :: "string \<Rightarrow> string" where
  "strip s = rev (dropWhile is_space (rev (dropWhile is_space s)))"

definition digit_val :: "char \<Rightarrow> nat option" where
  "digit_val = map_of
     [(CHR ''0'', 0), (CHR ''1'', 1), (CHR ''2'', 2), (CHR ''3'', 3), (CHR ''4'', 4),
      (CHR ''5'', 5), (CHR ''6'', 6), (CHR ''7'', 7), (CHR ''8'', 8), (CHR ''9'', 9)]"

text \<open>
  \<open>parse_digits acc prev s\<close>: \<open>acc\<close> is the value read so far, \<open>prev\<close> says that
  the character before was a digit (an underscore needs a digit on both sides, and the
  text must end in a digit).
\<close>

fun parse_digits :: "nat \<Rightarrow> bool \<Rightarrow> string \<Rightarrow> nat option" where
  "parse_digits acc prev [] = (if prev then Some acc else None)"
| "parse_digits acc prev (c # cs) =
     (if c = CHR ''_'' then (if prev then parse_digits acc False cs else None)
      else (case digit_val c of
              None \<Rightarrow> None
            | Some d \<Rightarrow> parse_digits (10 * acc + d) True cs))"

definition py_int :: "string \<Rightarrow> error + int" where
  "py_int s =
     (case strip s of
        [] \<Rightarrow> Inl ValueError
      | c # cs \<Rightarrow>
          if c = CHR ''-'' then
            (case parse_digits 0 False cs of None \<Rightarrow> Inl ValueError | Some n \<Rightarrow> Inr (- int n))
          else if c = CHR ''+'' then
            (case parse_digits 0 False cs of None \<Rightarrow> Inl ValueError | Some n \<Rightarrow> Inr (int n))
          else
            (case parse_digits 0 False (c # cs) of None \<Rightarrow> Inl ValueError | Some n \<Rightarrow> Inr (int n)))"

section \<open>The index of the current array job\<close>

text \<open>
  \<^verbatim>\<open>os.environ\<close> is a map from names to strings. \<^verbatim>\<open>os.environ.get(k)\<close> is
  \<^verbatim>\<open>None\<close> for a name that is not set, and raises TypeError when \<open>k\<close> itself is
  \<^verbatim>\<open>None\<close> (the mapping encodes its key first, and only strings encode).
\<close>

type_synonym environ = "string \<rightharpoonup> string"

definition environ_get :: "environ \<Rightarrow> string option \<Rightarrow> error + string option" where
  "environ_get env k = (case k of None \<Rightarrow> Inl TypeError | Some name \<Rightarrow> Inr (env name))"

text \<open>\<^verbatim>\<open>int(x)\<close> where \<open>x\<close> is a string or \<^verbatim>\<open>None\<close>: \<^verbatim>\<open>int(None)\<close> is a TypeError.\<close>

definition int_of_optional :: "string option \<Rightarrow> error + int" where
  "int_of_optional x = (case x of None \<Rightarrow> Inl TypeError | Some s \<Rightarrow> py_int s)"

text \<open>
  \<^verbatim>\<open>_compute_array_job_index\<close> (lines 87 to 97). The offset is read only when its
  variable holds a non-empty string (the truth value of a string); it is parsed before
  the index variable is looked up, so a malformed offset fails first.
\<close>

definition compute_array_job_index :: "environ \<Rightarrow> error + int" where
  "compute_array_job_index env =
     (case (case env ''BATCH_JOB_ARRAY_INDEX_OFFSET'' of
              None \<Rightarrow> Inr 0
            | Some t \<Rightarrow> if t \<noteq> [] then int_of_optional (env ''BATCH_JOB_ARRAY_INDEX_OFFSET'')
                        else Inr 0) of
        Inl e \<Rightarrow> Inl e
      | Inr offset \<Rightarrow>
          (case environ_get env (env ''BATCH_JOB_ARRAY_INDEX_VAR_NAME'') of
             Inl e \<Rightarrow> Inl e
           | Inr x \<Rightarrow>
               (case int_of_optional x of
                  Inl e \<Rightarrow> Inl e
                | Inr raw \<Rightarrow> Inr (offset + raw))))"

section \<open>Interfaces, tasks and the ambient context\<close>

text \<open>
  An interface is a pair of insertion-ordered dictionaries from names to types. A task
  has two of them: \<^verbatim>\<open>_python_interface\<close> (Python types, \<open>'t\<close>) and
  \<^verbatim>\<open>interface\<close> (the typed variables, \<open>'v\<close>). The wrapped task's
  \<^verbatim>\<open>execute\<close> is a parameter of the model: it receives the keyword dictionary
  it is called with, may read and change a world \<open>'w\<close> (its side effects), and
  returns a value or raises.
\<close>

record 'a Interface =
  inputs :: "(string \<times> 'a) list"
  outputs :: "(string \<times> 'a) list"

type_synonym 'w task_execute = "(string \<times> pyval) list \<Rightarrow> 'w \<Rightarrow> (error + pyval) \<times> 'w"

record ('t, 'v, 'w) PythonFunctionTask =
  task_python_interface :: "'t Interface"
  task_interface :: "'v Interface"
  task_execute :: "'w task_execute"

text \<open>
  \<^verbatim>\<open>MapPythonTask\<close>: \<^verbatim>\<open>_run_task\<close>, and the two interfaces that the
  constructor hands to \<^verbatim>\<open>PythonTask.__init__\<close> (line 39).
\<close>

record ('t, 'v, 'w) MapPythonTask =
  run_task :: "('t, 'v, 'w) PythonFunctionTask"
  python_interface :: "'t Interface"
  interface :: "'v Interface"

text \<open>
  \<^verbatim>\<open>FlyteContext.current_context()\<close> is ambient state; the model passes it as an
  argument. Only \<^verbatim>\<open>execution_state.mode\<close> is read. The module names two modes,
  \<^verbatim>\<open>TASK_EXECUTION\<close> and \<^verbatim>\<open>LOCAL_WORKFLOW_EXECUTION\<close>; the third
  constructor stands for any other mode of the enumeration, which is declared in
  \<^verbatim>\<open>context_manager\<close>.
\<close>

datatype Mode = TASK_EXECUTION | LOCAL_WORKFLOW_EXECUTION | LOCAL_TASK_EXECUTION

record ExecutionState =
  mode :: Mode

record FlyteContext =
  execution_state :: "ExecutionState option"

text \<open>\<^verbatim>\<open>_outputs_interface\<close> (lines 99 to 112).\<close>

definition outputs_interface ::
  "FlyteContext \<Rightarrow> ('t, 'v, 'w) MapPythonTask \<Rightarrow> (string \<times> 'v) list" where
  "outputs_interface ctx self =
     (case execution_state ctx of
        None \<Rightarrow> outputs (task_interface (run_task self))
      | Some es \<Rightarrow>
          if mode es = LOCAL_WORKFLOW_EXECUTION then outputs (interface self)
          else outputs (task_interface (run_task self)))"

text \<open>\<^verbatim>\<open>d[k]\<close> on an interface dictionary.\<close>

definition lookup :: "(string \<times> 'a) list \<Rightarrow> string \<Rightarrow> error + 'a" where
  "lookup d k = (case map_of d k of None \<Rightarrow> Inl KeyError | Some v \<Rightarrow> Inr v)"

text \<open>\<^verbatim>\<open>get_type_for_output_var\<close> (lines 114 to 125); the argument \<open>v\<close> is not used.\<close>

definition get_type_for_output_var ::
  "FlyteContext \<Rightarrow> ('t, 'v, 'w) MapPythonTask \<Rightarrow> string \<Rightarrow> pyval \<Rightarrow> error + 't" where
  "get_type_for_output_var ctx self k v =
     (case execution_state ctx of
        None \<Rightarrow> lookup (outputs (task_python_interface (run_task self))) k
      | Some es \<Rightarrow>
          if mode es = LOCAL_WORKFLOW_EXECUTION then lookup (outputs (python_interface self)) k
          else lookup (outputs (task_python_interface (run_task self))) k)"

section \<open>The two execution paths\<close>

text \<open>\<^verbatim>\<open>kwargs[k][i]\<close>: the element at index \<open>i\<close> of the collection bound to \<open>k\<close>.\<close>

definition item_at :: "kwargs \<Rightarrow> string \<Rightarrow> int \<Rightarrow> error + pyval" where
  "item_at kw k i =
     (case dict_getitem kw (Some k) of
        Inl e \<Rightarrow> Inl e
      | Inr c \<Rightarrow> py_getitem c i)"

text \<open>
  Both paths build the keyword dictionary of one element with the same loop (lines 135
  to 137 and 159 to 161):
  \<^verbatim>\<open>for k in self.interface.inputs.keys(): d[k] = kwargs[k][i]\<close>.
\<close>

fun index_inputs ::
  "kwargs \<Rightarrow> int \<Rightarrow> string list \<Rightarrow> (string \<times> pyval) list \<Rightarrow> error + (string \<times> pyval) list" where
  "index_inputs kw i [] d = Inr d"
| "index_inputs kw i (k # ks) d =
     (case item_at kw k i of
        Inl e \<Rightarrow> Inl e
      | Inr v \<Rightarrow> index_inputs kw i ks (dict_setitem d k v))"

text \<open>\<^verbatim>\<open>_execute_map_task\<close> (lines 127 to 138).\<close>

definition execute_map_task ::
  "environ \<Rightarrow> ('t, 'v, 'w) MapPythonTask \<Rightarrow> kwargs \<Rightarrow> 'w \<Rightarrow> (error + pyval) \<times> 'w" where
  "execute_map_task env self kw w =
     (case compute_array_job_index env of
        Inl e \<Rightarrow> (Inl e, w)
      | Inr task_index \<Rightarrow>
          (case index_inputs kw task_index (keys (inputs (interface self))) [] of
             Inl e \<Rightarrow> (Inl e, w)
           | Inr map_task_inputs \<Rightarrow> task_execute (run_task self) map_task_inputs w))"

text \<open>
  Lines 164 and 165:
  \<^verbatim>\<open>for x in range(len(outputs)): outputs[x].append(o[x])\<close>, from index \<open>x\<close> on.
\<close>

fun append_outputs :: "pyval \<Rightarrow> nat \<Rightarrow> pyval list list \<Rightarrow> error + pyval list list" where
  "append_outputs o' x [] = Inr []"
| "append_outputs o' x (a # as) =
     (case py_getitem o' (int x) of
        Inl e \<Rightarrow> Inl e
      | Inr v \<Rightarrow>
          (case append_outputs o' (Suc x) as of
             Inl e \<Rightarrow> Inl e
           | Inr as' \<Rightarrow> Inr ((a @ [v]) # as')))"

text \<open>
  The loop of lines 158 to 165 over the positions still to visit; \<open>outs\<close> is the
  local variable \<^verbatim>\<open>outputs\<close>. An exception leaves the loop at once, with the
  world as the last call of \<^verbatim>\<open>execute\<close> left it.
\<close>

fun raw_loop ::
  "'w task_execute \<Rightarrow> string list \<Rightarrow> bool \<Rightarrow> kwargs \<Rightarrow> nat list \<Rightarrow> pyval list list \<Rightarrow> 'w
     \<Rightarrow> (error + pyval list list) \<times> 'w" where
  "raw_loop ex ks outputs_expected kw [] outs w = (Inr outs, w)"
| "raw_loop ex ks outputs_expected kw (i # is) outs w =
     (case index_inputs kw (int i) ks [] of
        Inl e \<Rightarrow> (Inl e, w)
      | Inr single_instance_inputs \<Rightarrow>
          (case ex single_instance_inputs w of
             (Inl e, w') \<Rightarrow> (Inl e, w')
           | (Inr o', w') \<Rightarrow>
               if outputs_expected then
                 (case append_outputs o' 0 outs of
                    Inl e \<Rightarrow> (Inl e, w')
                  | Inr outs' \<Rightarrow> raw_loop ex ks outputs_expected kw is outs' w')
               else raw_loop ex ks outputs_expected kw is outs w'))"

text \<open>
  Lines 152 to 156. \<^verbatim>\<open>dict.items()\<close> is a view object, never \<^verbatim>\<open>None\<close>, so the
  guard always holds and the first key is taken; \<^verbatim>\<open>list(...)[0]\<close> raises IndexError
  on an empty dictionary.
\<close>

definition any_input_key :: "(string \<times> 'v) list \<Rightarrow> error + string option" where
  "any_input_key run_inputs =
     (if Some run_inputs \<noteq> None then
        (case keys run_inputs of [] \<Rightarrow> Inl IndexError | k # _ \<Rightarrow> Inr (Some k))
      else Inr None)"

text \<open>
  Lines 145 to 165: the accumulators \<^verbatim>\<open>outputs\<close> as the loop leaves them.
\<close>

definition raw_execute_outputs ::
  "FlyteContext \<Rightarrow> ('t, 'v, 'w) MapPythonTask \<Rightarrow> kwargs \<Rightarrow> 'w
     \<Rightarrow> (error + pyval list list) \<times> 'w" where
  "raw_execute_outputs ctx self kw w =
     (let outputs_expected = (outputs (interface self) \<noteq> []);
          outs = map (\<lambda>_. []) (keys (outputs_interface ctx self))
      in case any_input_key (inputs (task_interface (run_task self))) of
           Inl e \<Rightarrow> (Inl e, w)
         | Inr key \<Rightarrow>
             (case dict_getitem kw key of
                Inl e \<Rightarrow> (Inl e, w)
              | Inr c \<Rightarrow>
                  (case py_len c of
                     Inl e \<Rightarrow> (Inl e, w)
                   | Inr n \<Rightarrow>
                       raw_loop (task_execute (run_task self)) (keys (inputs (interface self)))
                         outputs_expected kw [0..<n] outs w)))"

text \<open>Lines 167 to 170: one accumulator is returned bare, any other number as a tuple.\<close>

definition return_outputs :: "pyval list list \<Rightarrow> pyval" where
  "return_outputs outs =
     (if length outs = 1 then PList (outs ! 0) else PTuple (map PList outs))"

text \<open>\<^verbatim>\<open>_raw_execute\<close> (lines 140 to 170).\<close>

definition raw_execute ::
  "FlyteContext \<Rightarrow> ('t, 'v, 'w) MapPythonTask \<Rightarrow> kwargs \<Rightarrow> 'w \<Rightarrow> (error + pyval) \<times> 'w" where
  "raw_execute ctx self kw w =
     (case raw_execute_outputs ctx self kw w of
        (Inl e, w') \<Rightarrow> (Inl e, w')
      | (Inr outs, w') \<Rightarrow> (Inr (return_outputs outs), w'))"

text \<open>\<^verbatim>\<open>execute\<close> (lines 80 to 85).\<close>

definition execute ::
  "FlyteContext \<Rightarrow> environ \<Rightarrow> ('t, 'v, 'w) MapPythonTask \<Rightarrow> kwargs \<Rightarrow> 'w
     \<Rightarrow> (error + pyval) \<times> 'w" where
  "execute ctx env self kw w =
     (if (case execution_state ctx of None \<Rightarrow> False | Some es \<Rightarrow> mode es = TASK_EXECUTION)
      then execute_map_task env self kw w
      else raw_execute ctx self kw w)"

section \<open>Position by position: what the loop is compared with\<close>

text \<open>
  The statements below compare the loop with a description by positions.
  \<open>call_at\<close> is \<^verbatim>\<open>execute\<close> applied to the inputs at position \<open>i\<close>;
  \<open>world_before\<close> is the world after the calls at the positions below \<open>i\<close>, made
  once each and in order; \<open>result_at\<close> is what the call at position \<open>i\<close> returns
  there, and \<open>output_at\<close> its \<open>j\<close>-th output value.
\<close>

definition call_at ::
  "'w task_execute \<Rightarrow> string list \<Rightarrow> kwargs \<Rightarrow> nat \<Rightarrow> 'w \<Rightarrow> (error + pyval) \<times> 'w" where
  "call_at ex ks kw i w =
     (case index_inputs kw (int i) ks [] of
        Inl e \<Rightarrow> (Inl e, w)
      | Inr d \<Rightarrow> ex d w)"

fun world_before :: "'w task_execute \<Rightarrow> string list \<Rightarrow> kwargs \<Rightarrow> 'w \<Rightarrow> nat \<Rightarrow> 'w" where
  "world_before ex ks kw w 0 = w"
| "world_before ex ks kw w (Suc i) = snd (call_at ex ks kw i (world_before ex ks kw w i))"

definition result_at ::
  "'w task_execute \<Rightarrow> string list \<Rightarrow> kwargs \<Rightarrow> 'w \<Rightarrow> nat \<Rightarrow> error + pyval" where
  "result_at ex ks kw w i = fst (call_at ex ks kw i (world_before ex ks kw w i))"

definition output_at ::
  "'w task_execute \<Rightarrow> string list \<Rightarrow> kwargs \<Rightarrow> 'w \<Rightarrow> nat \<Rightarrow> nat \<Rightarrow> error + pyval" where
  "output_at ex ks kw w i j =
     (case result_at ex ks kw w i of
        Inl e \<Rightarrow> Inl e
      | Inr o' \<Rightarrow> py_getitem o' (int j))"

definition returns :: "error + 'a \<Rightarrow> bool" where
  "returns r = (case r of Inl e \<Rightarrow> False | Inr v \<Rightarrow> True)"

text \<open>
  Position \<open>i\<close> completes: the call returns a value and, when outputs are expected,
  that value can be indexed at each of the \<open>k\<close> accumulator positions.
\<close>

definition completes ::
  "'w task_execute \<Rightarrow> string list \<Rightarrow> kwargs \<Rightarrow> 'w \<Rightarrow> bool \<Rightarrow> nat \<Rightarrow> nat \<Rightarrow> bool" where
  "completes ex ks kw w outputs_expected k i =
     (returns (result_at ex ks kw w i) \<and>
      (outputs_expected \<longrightarrow> list_all (\<lambda>j. returns (output_at ex ks kw w i j)) [0..<k]))"

text \<open>The accumulators that \<open>n\<close> completed positions fill, by positions.\<close>

definition accumulators ::
  "'w task_execute \<Rightarrow> string list \<Rightarrow> kwargs \<Rightarrow> 'w \<Rightarrow> nat \<Rightarrow> nat \<Rightarrow> pyval list list" where
  "accumulators ex ks kw w k n =
     map (\<lambda>j. map (\<lambda>i. projr (output_at ex ks kw w i j)) [0..<n]) [0..<k]"

text \<open>
  What the constructor establishes (line 33): the dispatcher's interface is the
  wrapped task's with every type made a collection type, so both declare the same
  names in the same order.
\<close>

definition same_names :: "('t, 'v, 'w) MapPythonTask \<Rightarrow> bool" where
  "same_names self \<longleftrightarrow>
     keys (inputs (interface self)) = keys (inputs (task_interface (run_task self))) \<and>
     keys (outputs (interface self)) = keys (outputs (task_interface (run_task self)))"

section \<open>Concrete tasks and inputs\<close>

text \<open>
  The examples below run in a world that is the log of the keyword dictionaries
  \<^verbatim>\<open>execute\<close> was called with, so the world after a run shows each call made.
\<close>

type_synonym call_log = "(string \<times> pyval) list list"

definition int_arg :: "(string \<times> pyval) list \<Rightarrow> string \<Rightarrow> error + int" where
  "int_arg d k = (case map_of d k of Some (PInt n) \<Rightarrow> Inr n | _ \<Rightarrow> Inl TypeError)"

text \<open>
  Modelled from the spec: \<^verbatim>\<open>transform_interface_to_list_interface\<close> is outside the
  sources; the spec (section 3, CollectionInterface) says that names and order are
  kept and each type \<open>T\<close> becomes collection-of-\<open>T\<close>. Types are written as their names.
\<close>

definition transform_interface_to_list_interface :: "string Interface \<Rightarrow> string Interface" where
  "transform_interface_to_list_interface i =
     \<lparr>inputs = map (\<lambda>(k, t). (k, ''List['' @ t @ '']'')) (inputs i),
      outputs = map (\<lambda>(k, t). (k, ''List['' @ t @ '']'')) (outputs i)\<rparr>"

text \<open>
  The constructor (lines 33 to 46), for a task whose typed interface carries the same
  type names as its Python interface.
\<close>

definition MapPythonTask_init ::
  "(string, string, 'w) PythonFunctionTask \<Rightarrow> (string, string, 'w) MapPythonTask" where
  "MapPythonTask_init python_function_task =
     (let collection_interface =
            transform_interface_to_list_interface (task_python_interface python_function_task)
      in \<lparr>run_task = python_function_task,
          python_interface = collection_interface,
          interface = collection_interface\<rparr>)"

definition function_task ::
  "(string \<times> string) list \<Rightarrow> (string \<times> string) list \<Rightarrow> 'w task_execute
     \<Rightarrow> (string, string, 'w) PythonFunctionTask" where
  "function_task ins outs ex =
     \<lparr>task_python_interface = \<lparr>inputs = ins, outputs = outs\<rparr>,
      task_interface = \<lparr>inputs = ins, outputs = outs\<rparr>,
      task_execute = ex\<rparr>"

text \<open>An element task that doubles an integer and returns its one output in a tuple.\<close>

definition double_execute :: "call_log task_execute" where
  "double_execute d w =
     ((case int_arg d ''a'' of Inl e \<Rightarrow> Inl e | Inr a \<Rightarrow> Inr (PTuple [PInt (2 * a)])), w @ [d])"

definition double_task :: "(string, string, call_log) PythonFunctionTask" where
  "double_task = function_task [(''a'', ''int'')] [(''o0'', ''int'')] double_execute"

text \<open>
  The same computation as a task function with one declared output is written: the
  call returns the integer itself.
\<close>

definition bare_double_execute :: "call_log task_execute" where
  "bare_double_execute d w =
     ((case int_arg d ''a'' of Inl e \<Rightarrow> Inl e | Inr a \<Rightarrow> Inr (PInt (2 * a))), w @ [d])"

definition bare_double_task :: "(string, string, call_log) PythonFunctionTask" where
  "bare_double_task = function_task [(''a'', ''int'')] [(''o0'', ''int'')] bare_double_execute"

text \<open>
  The task of the docstring of \<^verbatim>\<open>maptask\<close> (lines 185 to 187):
  \<^verbatim>\<open>def my_mappable_task(a: int) -> str: return str(a)\<close>, with \<^verbatim>\<open>str\<close> on an
  integer.
\<close>

function str_nat :: "nat \<Rightarrow> string" where
  "str_nat n =
     (if n < 10 then [''0123456789'' ! n]
      else str_nat (n div 10) @ [''0123456789'' ! (n mod 10)])"
  by pat_completeness auto
termination
  by (relation "measure id") auto

declare str_nat.simps [simp del]

definition py_str :: "int \<Rightarrow> string" where
  "py_str a = (if a < 0 then CHR ''-'' # str_nat (nat (- a)) else str_nat (nat a))"

definition my_mappable_execute :: "call_log task_execute" where
  "my_mappable_execute d w =
     ((case int_arg d ''a'' of Inl e \<Rightarrow> Inl e | Inr a \<Rightarrow> Inr (PStr (py_str a))), w @ [d])"

definition my_mappable_task :: "(string, string, call_log) PythonFunctionTask" where
  "my_mappable_task = function_task [(''a'', ''int'')] [(''o0'', ''str'')] my_mappable_execute"

text \<open>Two inputs, two outputs: the sum and the product.\<close>

definition sum_product_execute :: "call_log task_execute" where
  "sum_product_execute d w =
     ((case int_arg d ''a'' of
         Inl e \<Rightarrow> Inl e
       | Inr a \<Rightarrow>
           (case int_arg d ''b'' of
              Inl e \<Rightarrow> Inl e
            | Inr b \<Rightarrow> Inr (PTuple [PInt (a + b), PInt (a * b)]))), w @ [d])"

definition sum_product_task :: "(string, string, call_log) PythonFunctionTask" where
  "sum_product_task =
     function_task [(''a'', ''int''), (''b'', ''int'')] [(''o0'', ''int''), (''o1'', ''int'')]
       sum_product_execute"

text \<open>No declared output: the call returns \<^verbatim>\<open>None\<close>.\<close>

definition note_execute :: "call_log task_execute" where
  "note_execute d w = (Inr PNone, w @ [d])"

definition note_task :: "(string, string, call_log) PythonFunctionTask" where
  "note_task = function_task [(''a'', ''int'')] [] note_execute"

text \<open>No declared input.\<close>

definition constant_execute :: "call_log task_execute" where
  "constant_execute d w = (Inr (PTuple [PInt 7]), w @ [d])"

definition constant_task :: "(string, string, call_log) PythonFunctionTask" where
  "constant_task = function_task [] [(''o0'', ''int'')] constant_execute"

text \<open>A task that raises when its argument is 2.\<close>

definition picky_execute :: "call_log task_execute" where
  "picky_execute d w =
     ((case int_arg d ''a'' of
         Inl e \<Rightarrow> Inl e
       | Inr a \<Rightarrow> if a = 2 then Inl (Raised ''two'') else Inr (PTuple [PInt a])), w @ [d])"

definition picky_task :: "(string, string, call_log) PythonFunctionTask" where
  "picky_task = function_task [(''a'', ''int'')] [(''o0'', ''int'')] picky_execute"

definition ctx_of :: "Mode \<Rightarrow> FlyteContext" where
  "ctx_of m = \<lparr>execution_state = Some \<lparr>mode = m\<rparr>\<rparr>"

definition ctx_none :: FlyteContext where
  "ctx_none = \<lparr>execution_state = None\<rparr>"

definition ints :: "int list \<Rightarrow> pyval" where
  "ints xs = PList (map PInt xs)"

text \<open>
  Environments: an offset of 10 with raw index 1, the same without the offset, one
  where the variable that should name the index variable is not set, one where the
  index variable holds a word, one where it holds \<open>7\<close> after a no-break space, and one
  where it holds \<open>5\<close> between the separators 0x1C and 0x1F.
\<close>

definition env_offset :: environ where
  "env_offset = map_of
     [(''BATCH_JOB_ARRAY_INDEX_OFFSET'', ''10''),
      (''BATCH_JOB_ARRAY_INDEX_VAR_NAME'', ''AWS_BATCH_JOB_ARRAY_INDEX''),
      (''AWS_BATCH_JOB_ARRAY_INDEX'', ''1'')]"

definition env_plain :: environ where
  "env_plain = map_of
     [(''BATCH_JOB_ARRAY_INDEX_VAR_NAME'', ''AWS_BATCH_JOB_ARRAY_INDEX''),
      (''AWS_BATCH_JOB_ARRAY_INDEX'', ''1'')]"

definition env_unnamed :: environ where
  "env_unnamed = map_of [(''AWS_BATCH_JOB_ARRAY_INDEX'', ''1'')]"

definition env_garbled :: environ where
  "env_garbled = map_of
     [(''BATCH_JOB_ARRAY_INDEX_VAR_NAME'', ''AWS_BATCH_JOB_ARRAY_INDEX''),
      (''AWS_BATCH_JOB_ARRAY_INDEX'', ''one'')]"

definition env_padded :: environ where
  "env_padded = map_of
     [(''BATCH_JOB_ARRAY_INDEX_VAR_NAME'', ''AWS_BATCH_JOB_ARRAY_INDEX''),
      (''AWS_BATCH_JOB_ARRAY_INDEX'', [CHR 0xA0, CHR ''7''])]"

definition env_separators :: environ where
  "env_separators = map_of
     [(''BATCH_JOB_ARRAY_INDEX_VAR_NAME'', ''AWS_BATCH_JOB_ARRAY_INDEX''),
      (''AWS_BATCH_JOB_ARRAY_INDEX'', [CHR 0x1C, CHR ''5'', CHR 0x1F])]"

section \<open>Facts about the built-ins\<close>

lemma py_int_nonempty: "py_int t = Inr n \<Longrightarrow> t \<noteq> []"
  by (auto simp: py_int_def strip_def)

lemma py_int_error: "py_int s = Inl e \<Longrightarrow> e = ValueError"
  by (auto simp: py_int_def split: list.splits if_splits option.splits)

text \<open>
  At the edges of the whitespace: a no-break space is stripped, the separators 0x1C and
  0x1F are not, and whitespace inside the digits is not accepted.
\<close>

lemma py_int_whitespace:
  "py_int [CHR 0xA0, CHR ''7''] = Inr 7"
  "py_int [CHR 0x85, CHR 0x09, CHR ''+'', CHR ''1'', CHR ''_'', CHR ''2'', CHR 0x0B, CHR 0xA0] = Inr 12"
  "py_int [CHR 0x1C, CHR ''5'', CHR 0x1F] = Inl ValueError"
  "py_int [CHR ''1'', CHR 0xA0, CHR ''2''] = Inl ValueError"
  by (simp_all add: py_int_def strip_def is_space_def digit_val_def)

section \<open>Facts about the loop\<close>

lemma returns_iff: "returns r \<longleftrightarrow> (\<exists>v. r = Inr v)"
  by (cases r) (simp_all add: returns_def)

lemma raw_loop_append:
  "raw_loop ex ks oe kw (xs @ ys) outs w =
     (case raw_loop ex ks oe kw xs outs w of
        (Inl e, w') \<Rightarrow> (Inl e, w')
      | (Inr outs', w') \<Rightarrow> raw_loop ex ks oe kw ys outs' w')"
  by (induction xs arbitrary: outs w) (auto split: sum.splits prod.splits)

lemma append_outputs_ok:
  "\<forall>y<length outs. returns (py_getitem o' (int (x + y))) \<Longrightarrow>
   append_outputs o' x outs =
     Inr (map (\<lambda>y. outs ! y @ [projr (py_getitem o' (int (x + y)))]) [0..<length outs])"
proof (induction outs arbitrary: x)
  case Nil
  then show ?case by simp
next
  case (Cons a as)
  from Cons.prems have "returns (py_getitem o' (int (x + 0)))" by blast
  then obtain v where v: "py_getitem o' (int x) = Inr v"
    by (auto simp: returns_iff)
  have "\<forall>y<length as. returns (py_getitem o' (int (Suc x + y)))"
  proof (intro allI impI)
    fix y assume "y < length as"
    then have "Suc y < length (a # as)" by simp
    with Cons.prems have "returns (py_getitem o' (int (x + Suc y)))" by blast
    then show "returns (py_getitem o' (int (Suc x + y)))" by simp
  qed
  from Cons.IH[OF this] v show ?case
    by (simp add: map_upt_Suc ac_simps del: upt_Suc)
qed

lemma accumulators_0: "accumulators ex ks kw w k 0 = replicate k []"
  by (simp add: accumulators_def map_replicate_const)

lemma length_accumulators: "length (accumulators ex ks kw w k n) = k"
  by (simp add: accumulators_def)

lemma nth_accumulators:
  "j < k \<Longrightarrow> accumulators ex ks kw w k n ! j = map (\<lambda>i. projr (output_at ex ks kw w i j)) [0..<n]"
  by (simp add: accumulators_def)

lemma raw_loop_step:
  assumes c: "completes ex ks kw w oe k n"
  shows "raw_loop ex ks oe kw [n] (if oe then accumulators ex ks kw w k n else replicate k [])
           (world_before ex ks kw w n) =
         (Inr (if oe then accumulators ex ks kw w k (Suc n) else replicate k []),
          world_before ex ks kw w (Suc n))"
proof -
  from c obtain o' where r: "result_at ex ks kw w n = Inr o'"
    by (auto simp: completes_def returns_iff)
  obtain r' w' where cw: "call_at ex ks kw n (world_before ex ks kw w n) = (r', w')"
    by (cases "call_at ex ks kw n (world_before ex ks kw w n)")
  with r have r': "r' = Inr o'" by (simp add: result_at_def)
  from cw r' obtain d where d: "index_inputs kw (int n) ks [] = Inr d"
    and ex: "ex d (world_before ex ks kw w n) = (Inr o', w')"
    by (auto simp: call_at_def split: sum.splits)
  have wb: "world_before ex ks kw w (Suc n) = w'" using cw by simp
  show ?thesis
  proof (cases oe)
    case False
    with d ex wb show ?thesis by simp
  next
    case True
    with c have "\<forall>j<k. returns (output_at ex ks kw w n j)"
      by (simp add: completes_def list_all_iff)
    with r have g: "\<forall>j<k. returns (py_getitem o' (int j))"
      by (simp add: output_at_def)
    then have "\<forall>y<length (accumulators ex ks kw w k n). returns (py_getitem o' (int (0 + y)))"
      by (simp add: length_accumulators)
    from append_outputs_ok[OF this]
    have ap: "append_outputs o' 0 (accumulators ex ks kw w k n) =
          Inr (map (\<lambda>y. accumulators ex ks kw w k n ! y @ [projr (py_getitem o' (int y))]) [0..<k])"
      by (simp add: length_accumulators)
    have "map (\<lambda>y. accumulators ex ks kw w k n ! y @ [projr (py_getitem o' (int y))]) [0..<k] =
          accumulators ex ks kw w k (Suc n)"
    proof (rule nth_equalityI)
      show "length (map (\<lambda>y. accumulators ex ks kw w k n ! y @ [projr (py_getitem o' (int y))]) [0..<k]) =
            length (accumulators ex ks kw w k (Suc n))"
        by (simp add: length_accumulators)
    next
      fix j
      assume "j < length (map (\<lambda>y. accumulators ex ks kw w k n ! y @ [projr (py_getitem o' (int y))]) [0..<k])"
      then have j: "j < k" by simp
      have "output_at ex ks kw w n j = py_getitem o' (int j)"
        using r by (simp add: output_at_def)
      with j show "map (\<lambda>y. accumulators ex ks kw w k n ! y @ [projr (py_getitem o' (int y))]) [0..<k] ! j =
            accumulators ex ks kw w k (Suc n) ! j"
        by (simp add: nth_accumulators)
    qed
    with ap d ex wb True show ?thesis by simp
  qed
qed

lemma raw_loop_completes:
  assumes "\<forall>i<n. completes ex ks kw w oe k i"
  shows "raw_loop ex ks oe kw [0..<n] (replicate k []) w =
           (Inr (if oe then accumulators ex ks kw w k n else replicate k []),
            world_before ex ks kw w n)"
  using assms
proof (induction n)
  case 0
  then show ?case by (simp add: accumulators_0)
next
  case (Suc n)
  then have ih: "raw_loop ex ks oe kw [0..<n] (replicate k []) w =
           (Inr (if oe then accumulators ex ks kw w k n else replicate k []),
            world_before ex ks kw w n)"
    by simp
  from Suc.prems have c: "completes ex ks kw w oe k n" by simp
  have "raw_loop ex ks oe kw [0..<Suc n] (replicate k []) w =
        raw_loop ex ks oe kw [n] (if oe then accumulators ex ks kw w k n else replicate k [])
           (world_before ex ks kw w n)"
    using ih by (simp add: raw_loop_append del: raw_loop.simps)
  with raw_loop_step[OF c] show ?case by simp
qed

lemma raw_loop_fails:
  assumes pre: "\<forall>i<m. completes ex ks kw w oe k i"
    and m: "m < n"
    and f: "call_at ex ks kw m (world_before ex ks kw w m) = (Inl e, w')"
  shows "raw_loop ex ks oe kw [0..<n] (replicate k []) w = (Inl e, w')"
proof -
  have "[0..<m + (n - m)] = [0..<m] @ [m..<m + (n - m)]"
    by (rule upt_add_eq_append) simp
  with m have split: "[0..<n] = [0..<m] @ (m # [Suc m..<n])"
    by (simp add: upt_conv_Cons)
  have here: "raw_loop ex ks oe kw (m # [Suc m..<n]) outs (world_before ex ks kw w m) = (Inl e, w')"
    for outs
    using f by (auto simp: call_at_def split: sum.splits)
  show ?thesis
    unfolding split raw_loop_append raw_loop_completes[OF pre]
    using here by simp
qed

lemma raw_loop_cong:
  "\<forall>i\<in>set is. index_inputs kw (int i) ks [] = index_inputs kw' (int i) ks [] \<Longrightarrow>
   raw_loop ex ks oe kw is outs w = raw_loop ex ks oe kw' is outs w"
  by (induction "is" arbitrary: outs w) (auto split: sum.splits prod.splits)

lemma index_inputs_cong:
  "\<forall>k\<in>set ks. item_at kw k i = item_at kw' k i \<Longrightarrow>
   index_inputs kw i ks d = index_inputs kw' i ks d"
  by (induction ks arbitrary: d) (auto split: sum.splits)

lemma returns_projr: "returns r \<Longrightarrow> r = Inr (projr r)"
  by (cases r) (simp_all add: returns_def)

lemma length_keys: "length (keys d) = length d"
  by (simp add: keys_def)

lemma same_names_outputs:
  assumes "same_names self"
  shows "length (outputs_interface ctx self) = length (outputs (task_interface (run_task self)))"
    and "outputs (interface self) \<noteq> [] \<longleftrightarrow> outputs (task_interface (run_task self)) \<noteq> []"
proof -
  from assms have "length (keys (outputs (interface self))) =
      length (keys (outputs (task_interface (run_task self))))"
    by (simp add: same_names_def)
  then have l: "length (outputs (interface self)) = length (outputs (task_interface (run_task self)))"
    by (simp add: length_keys)
  then show "length (outputs_interface ctx self) = length (outputs (task_interface (run_task self)))"
    by (simp add: outputs_interface_def split: option.splits)
  from l show "outputs (interface self) \<noteq> [] \<longleftrightarrow> outputs (task_interface (run_task self)) \<noteq> []"
    by (metis length_0_conv)
qed

lemma raw_execute_outputs_loop:
  assumes "keys (inputs (task_interface (run_task self))) = key0 # rest"
    and "kw key0 = Some c" and "py_len c = Inr N"
  shows "raw_execute_outputs ctx self kw w =
     raw_loop (task_execute (run_task self)) (keys (inputs (interface self)))
       (outputs (interface self) \<noteq> []) kw [0..<N]
       (replicate (length (outputs_interface ctx self)) []) w"
  using assms
  by (simp add: raw_execute_outputs_def any_input_key_def dict_getitem_def
      map_replicate_const length_keys)

lemma output_at_result:
  "returns (output_at ex ks kw w i j) \<Longrightarrow> returns (result_at ex ks kw w i)"
  by (auto simp: output_at_def returns_def split: sum.splits)

lemma item_at_seq:
  assumes "kw key = Some c" and "py_len c = Inr n"
  shows "i < n \<Longrightarrow> returns (item_at kw key (int i))"
    and "n \<le> i \<Longrightarrow> item_at kw key (int i) = Inl IndexError"
  using assms
  by (cases c; simp add: item_at_def dict_getitem_def seq_getitem_def returns_def)+

lemma index_inputs_short:
  "\<forall>key\<in>set ks. returns (item_at kw key i) \<or> item_at kw key i = Inl IndexError \<Longrightarrow>
   \<exists>key\<in>set ks. item_at kw key i = Inl IndexError \<Longrightarrow>
   index_inputs kw i ks d = Inl IndexError"
proof (induction ks arbitrary: d)
  case Nil
  then show ?case by simp
next
  case (Cons a ks)
  show ?case
  proof (cases "item_at kw a i")
    case (Inl e)
    with Cons.prems(1) have "e = IndexError" by (auto simp: returns_def)
    with Inl show ?thesis by simp
  next
    case (Inr v)
    with Cons.prems have "\<exists>key\<in>set ks. item_at kw key i = Inl IndexError" by auto
    with Cons.IH Cons.prems(1) Inr show ?thesis by simp
  qed
qed

lemma dict_setitem_fresh: "k \<notin> fst ` set d \<Longrightarrow> dict_setitem d k v = d @ [(k, v)]"
  by (induction d) auto

lemma index_inputs_distinct:
  "distinct ks \<Longrightarrow> set ks \<inter> fst ` set d = {} \<Longrightarrow>
   \<forall>key\<in>set ks. returns (item_at kw key i) \<Longrightarrow>
   index_inputs kw i ks d = Inr (d @ map (\<lambda>key. (key, projr (item_at kw key i))) ks)"
proof (induction ks arbitrary: d)
  case Nil
  then show ?case by simp
next
  case (Cons a ks)
  from Cons.prems obtain v where v: "item_at kw a i = Inr v"
    by (auto simp: returns_iff)
  from Cons.prems have fresh: "a \<notin> fst ` set d" by auto
  have "set ks \<inter> fst ` set (d @ [(a, v)]) = {}"
    using Cons.prems by auto
  with Cons.IH[of "d @ [(a, v)]"] Cons.prems
  have "index_inputs kw i ks (d @ [(a, v)]) =
      Inr ((d @ [(a, v)]) @ map (\<lambda>key. (key, projr (item_at kw key i))) ks)"
    by simp
  with v fresh show ?case by (simp add: dict_setitem_fresh)
qed

lemma execute_dispatch:
  "execute (ctx_of TASK_EXECUTION) env self kw w = execute_map_task env self kw w"
  "m \<noteq> TASK_EXECUTION \<Longrightarrow> execute (ctx_of m) env self kw w = raw_execute (ctx_of m) self kw w"
  "execute ctx_none env self kw w = raw_execute ctx_none self kw w"
  by (simp_all add: execute_def ctx_of_def ctx_none_def)

lemma keys_list_types: "keys (map (\<lambda>(k, t). (k, f t)) d) = keys d"
  by (induction d) (auto simp: keys_def)

lemma same_names_init:
  assumes "keys (inputs (task_interface t)) = keys (inputs (task_python_interface t))"
    and "keys (outputs (task_interface t)) = keys (outputs (task_python_interface t))"
  shows "same_names (MapPythonTask_init t)"
  using assms
  by (simp add: same_names_def MapPythonTask_init_def transform_interface_to_list_interface_def
      Let_def keys_list_types)

section \<open>Unfolding the concrete examples\<close>

lemmas py_int_eval = py_int_def strip_def is_space_def digit_val_def

lemmas task_eval = MapPythonTask_init_def transform_interface_to_list_interface_def
  function_task_def keys_def ctx_of_def ctx_none_def ints_def Let_def

lemmas run_eval = raw_execute_def raw_execute_outputs_def any_input_key_def dict_getitem_def
  outputs_interface_def item_at_def seq_getitem_def return_outputs_def int_arg_def
  call_at_def result_at_def output_at_def completes_def returns_def same_names_def
  execute_map_task_def

section \<open>The claims\<close>

subsection \<open>The accumulators of local execution\<close>

text \<open>
  Claim C1 fails on the code for an element task with one declared output. The
  \<^verbatim>\<open>execute\<close> of such a task returns the output value itself, as the task of
  the module's own docstring does, and line 165 reads every returned value as
  \<^verbatim>\<open>o[x]\<close>. For the task that doubles an integer, over \<open>[1, 2, 3]\<close>, the first
  call returns 2 and \<^verbatim>\<open>_raw_execute\<close> raises TypeError after that one call, where
  the claim has \<open>[2, 4, 6]\<close>. For the docstring's task over \<open>[10, 25]\<close> the calls
  return the strings \<open>10\<close> and \<open>25\<close>, and the list returned holds their first
  characters.
\<close>

theorem raw_execute_one_output_diverges:
  "fst (task_execute bare_double_task [(''a'', PInt 1)] []) = Inr (PInt 2) \<and>
   raw_execute ctx_none (MapPythonTask_init bare_double_task) [''a'' \<mapsto> ints [1, 2, 3]] [] =
     (Inl TypeError, [[(''a'', PInt 1)]]) \<and>
   fst (task_execute my_mappable_task [(''a'', PInt 10)] []) = Inr (PStr ''10'') \<and>
   fst (task_execute my_mappable_task [(''a'', PInt 25)] []) = Inr (PStr ''25'') \<and>
   fst (raw_execute ctx_none (MapPythonTask_init my_mappable_task) [''a'' \<mapsto> ints [10, 25]] []) =
     Inr (PList [PStr ''1'', PStr ''2''])"
  by (simp add: run_eval task_eval bare_double_task_def bare_double_execute_def
      my_mappable_task_def my_mappable_execute_def py_str_def str_nat.simps)

text \<open>
  What the loop does when every call returns a value that can be indexed at each of
  the \<open>k\<close> accumulator positions, as a task that returns a tuple of its outputs does:
  it ends with \<open>k\<close> accumulators of length \<open>N\<close>, where element \<open>i\<close> of accumulator
  \<open>j\<close> is \<^verbatim>\<open>o[j]\<close> for the value \<open>o\<close> returned at position \<open>i\<close>, and the calls
  are made once each and in order.
\<close>

lemma raw_execute_accumulators:
  assumes names: "same_names self"
    and ins: "inputs (task_interface (run_task self)) \<noteq> []"
    and bound: "\<forall>key\<in>set (keys (inputs (task_interface (run_task self)))).
                  \<exists>c. kw key = Some c \<and> py_len c = Inr N"
    and k: "k = length (outputs (task_interface (run_task self)))" "1 \<le> k"
    and ok: "\<forall>i<N. \<forall>j<k. returns (output_at (task_execute (run_task self))
                  (keys (inputs (interface self))) kw w i j)"
  shows "\<exists>outs.
           raw_execute_outputs ctx self kw w =
             (Inr outs, world_before (task_execute (run_task self))
                          (keys (inputs (interface self))) kw w N) \<and>
           length outs = k \<and>
           (\<forall>j<k. length (outs ! j) = N \<and>
              (\<forall>i<N. output_at (task_execute (run_task self))
                         (keys (inputs (interface self))) kw w i j = Inr (outs ! j ! i))) \<and>
           fst (raw_execute ctx self kw w) = Inr (return_outputs outs)"
proof -
  let ?ex = "task_execute (run_task self)"
  let ?ks = "keys (inputs (interface self))"
  from ins obtain key0 rest where
    keys0: "keys (inputs (task_interface (run_task self))) = key0 # rest"
    by (cases "inputs (task_interface (run_task self))") (auto simp: keys_def)
  with bound obtain c where c: "kw key0 = Some c" "py_len c = Inr N" by auto
  from names k have len: "length (outputs_interface ctx self) = k"
    and oe: "outputs (interface self) \<noteq> []"
    by (auto simp: same_names_outputs)
  have "\<forall>i<N. completes ?ex ?ks kw w True k i"
  proof (intro allI impI)
    fix i assume i: "i < N"
    from k(2) have "0 < k" by simp
    with ok i have "returns (output_at ?ex ?ks kw w i 0)" by blast
    then have "returns (result_at ?ex ?ks kw w i)" by (rule output_at_result)
    with ok i show "completes ?ex ?ks kw w True k i"
      by (simp add: completes_def list_all_iff)
  qed
  from raw_loop_completes[OF this]
  have run: "raw_execute_outputs ctx self kw w =
      (Inr (accumulators ?ex ?ks kw w k N), world_before ?ex ?ks kw w N)"
    by (simp add: raw_execute_outputs_loop[where kw=kw, OF keys0 c] len oe)
  have "\<forall>j<k. length (accumulators ?ex ?ks kw w k N ! j) = N \<and>
      (\<forall>i<N. output_at ?ex ?ks kw w i j = Inr (accumulators ?ex ?ks kw w k N ! j ! i))"
    using ok by (auto simp: nth_accumulators intro: returns_projr)
  with run show ?thesis
    by (simp add: raw_execute_def length_accumulators)
qed

text \<open>
  A doubling task that returns its output in a one-element tuple, over \<open>[1, 2, 3]\<close>:
  one accumulator of length three, three calls in order, and the value returned is
  \<open>[2, 4, 6]\<close>.
\<close>

lemma raw_execute_accumulators_tuple_example:
  "\<exists>outs. raw_execute_outputs ctx_none (MapPythonTask_init double_task)
             [''a'' \<mapsto> ints [1, 2, 3]] [] =
             (Inr outs, [[(''a'', PInt 1)], [(''a'', PInt 2)], [(''a'', PInt 3)]]) \<and>
          length outs = 1 \<and> length (outs ! 0) = 3 \<and>
          fst (raw_execute ctx_none (MapPythonTask_init double_task)
                 [''a'' \<mapsto> ints [1, 2, 3]] []) = Inr (return_outputs outs) \<and>
          fst (raw_execute ctx_none (MapPythonTask_init double_task)
                 [''a'' \<mapsto> ints [1, 2, 3]] []) = Inr (ints [2, 4, 6])"
proof -
  let ?M = "MapPythonTask_init double_task"
  let ?kw = "[''a'' \<mapsto> ints [1, 2, 3]]"
  have h1: "same_names ?M"
    by (simp add: run_eval task_eval double_task_def)
  have h2: "inputs (task_interface (run_task ?M)) \<noteq> []"
    by (simp add: task_eval double_task_def)
  have h3: "\<forall>key\<in>set (keys (inputs (task_interface (run_task ?M)))).
      \<exists>c. ?kw key = Some c \<and> py_len c = Inr 3"
    by (simp add: task_eval double_task_def)
  have h4: "1 = length (outputs (task_interface (run_task ?M)))"
    by (simp add: task_eval double_task_def)
  have h5: "\<forall>i<3. \<forall>j<1. returns (output_at (task_execute (run_task ?M))
      (keys (inputs (interface ?M))) ?kw [] i j)"
    by (simp add: numeral_3_eq_3 All_less_Suc run_eval task_eval double_task_def
        double_execute_def)
  have w: "world_before (task_execute (run_task ?M)) (keys (inputs (interface ?M))) ?kw [] 3 =
      [[(''a'', PInt 1)], [(''a'', PInt 2)], [(''a'', PInt 3)]]"
    by (simp add: numeral_3_eq_3 run_eval task_eval double_task_def double_execute_def)
  have a: "fst (raw_execute ctx_none ?M ?kw []) = Inr (ints [2, 4, 6])"
    by (simp add: run_eval task_eval double_task_def double_execute_def)
  from raw_execute_accumulators[OF h1 h2 h3 h4 _ h5, of ctx_none] w a
  show ?thesis by auto
qed

subsection \<open>One slot of a distributed run\<close>

text \<open>
  Claim C2. When the index resolves to \<open>s\<close>, \<^verbatim>\<open>_execute_map_task\<close> returns what
  \<^verbatim>\<open>execute\<close> returns on the dictionary that binds every declared input name to
  \<^verbatim>\<open>kwargs[name][s]\<close>, unchanged. Hence its result depends on the elements at
  index \<open>s\<close> only: two keyword dictionaries that agree at index \<open>s\<close> of every
  declared input give the same result, whatever the lengths of their collections.
\<close>

theorem execute_map_task_slot:
  assumes s: "compute_array_job_index env = Inr s"
  shows "(distinct (keys (inputs (interface self))) \<and>
          (\<forall>key\<in>set (keys (inputs (interface self))). returns (item_at kw key s)) \<longrightarrow>
            execute_map_task env self kw w =
              task_execute (run_task self)
                (map (\<lambda>key. (key, projr (item_at kw key s))) (keys (inputs (interface self)))) w) \<and>
         ((\<forall>key\<in>set (keys (inputs (interface self))). item_at kw' key s = item_at kw key s) \<longrightarrow>
            execute_map_task env self kw' w = execute_map_task env self kw w)"
proof (intro conjI impI)
  let ?ks = "keys (inputs (interface self))"
  {
    assume a: "distinct ?ks \<and> (\<forall>key\<in>set ?ks. returns (item_at kw key s))"
    then have "index_inputs kw s ?ks [] =
        Inr ([] @ map (\<lambda>key. (key, projr (item_at kw key s))) ?ks)"
      by (intro index_inputs_distinct) auto
    with s show "execute_map_task env self kw w =
        task_execute (run_task self) (map (\<lambda>key. (key, projr (item_at kw key s))) ?ks) w"
      by (simp add: execute_map_task_def)
  }
  {
    assume "\<forall>key\<in>set ?ks. item_at kw' key s = item_at kw key s"
    then have "index_inputs kw' s ?ks [] = index_inputs kw s ?ks []"
      by (rule index_inputs_cong)
    with s show "execute_map_task env self kw' w = execute_map_task env self kw w"
      by (simp add: execute_map_task_def)
  }
qed

text \<open>
  With raw index 1 and no offset, the doubling task receives the element at index 1; the
  collections \<open>[1, 2, 3]\<close> and \<open>[5, 2]\<close> agree there and give the same result.
\<close>

theorem execute_map_task_slot_witness:
  "compute_array_job_index env_plain = Inr 1 \<and>
   execute_map_task env_plain (MapPythonTask_init double_task) [''a'' \<mapsto> ints [1, 2, 3]] [] =
     (Inr (PTuple [PInt 4]), [[(''a'', PInt 2)]]) \<and>
   execute_map_task env_plain (MapPythonTask_init double_task) [''a'' \<mapsto> ints [5, 2]] [] =
   execute_map_task env_plain (MapPythonTask_init double_task) [''a'' \<mapsto> ints [1, 2, 3]] []"
proof -
  let ?M = "MapPythonTask_init double_task"
  let ?kw = "[''a'' \<mapsto> ints [1, 2, 3]]"
  let ?kw' = "[''a'' \<mapsto> ints [5, 2]]"
  have s: "compute_array_job_index env_plain = Inr 1"
    by (simp add: compute_array_job_index_def environ_get_def int_of_optional_def
        env_plain_def py_int_eval)
  have h1: "distinct (keys (inputs (interface ?M))) \<and>
      (\<forall>key\<in>set (keys (inputs (interface ?M))). returns (item_at ?kw key 1))"
    by (simp add: run_eval task_eval double_task_def)
  have h2: "\<forall>key\<in>set (keys (inputs (interface ?M))). item_at ?kw' key 1 = item_at ?kw key 1"
    by (simp add: run_eval task_eval double_task_def)
  from execute_map_task_slot[OF s, of ?M ?kw "[]" ?kw'] h1 h2
  have "execute_map_task env_plain ?M ?kw [] =
      task_execute (run_task ?M)
        (map (\<lambda>key. (key, projr (item_at ?kw key 1))) (keys (inputs (interface ?M)))) []"
    and e: "execute_map_task env_plain ?M ?kw' [] = execute_map_task env_plain ?M ?kw []"
    by blast+
  then have "execute_map_task env_plain ?M ?kw [] = (Inr (PTuple [PInt 4]), [[(''a'', PInt 2)]])"
    by (simp add: run_eval task_eval double_task_def double_execute_def)
  with s e show ?thesis by simp
qed

subsection \<open>The resolved index\<close>

text \<open>
  Claim C3. When the variable named by \<^verbatim>\<open>BATCH_JOB_ARRAY_INDEX_VAR_NAME\<close> holds an
  integer string of value \<open>raw\<close>, \<^verbatim>\<open>_compute_array_job_index\<close> returns \<open>raw\<close>
  if the offset variable is absent, and \<open>off + raw\<close> if the offset variable holds an
  integer string of value \<open>off\<close>. (The statement does not need \<open>raw\<close> to be
  non-negative.)
\<close>

theorem resolve_sum:
  assumes "env ''BATCH_JOB_ARRAY_INDEX_VAR_NAME'' = Some name"
    and "env name = Some s"
    and "py_int s = Inr raw"
  shows "(env ''BATCH_JOB_ARRAY_INDEX_OFFSET'' = None \<longrightarrow>
            compute_array_job_index env = Inr raw) \<and>
         (\<forall>t off. env ''BATCH_JOB_ARRAY_INDEX_OFFSET'' = Some t \<and> py_int t = Inr off \<longrightarrow>
            compute_array_job_index env = Inr (off + raw))"
  using assms
  by (auto simp: compute_array_job_index_def environ_get_def int_of_optional_def
      dest: py_int_nonempty)

text \<open>
  Offset \<open>10\<close> and raw index \<open>1\<close> resolve to 11; without the offset variable the
  raw index 1 is returned, and \<open>7\<close> after a no-break space resolves to 7.
\<close>

theorem resolve_sum_witness:
  "env_offset ''BATCH_JOB_ARRAY_INDEX_VAR_NAME'' = Some ''AWS_BATCH_JOB_ARRAY_INDEX'' \<and>
   env_offset ''AWS_BATCH_JOB_ARRAY_INDEX'' = Some ''1'' \<and>
   py_int ''1'' = Inr 1 \<and>
   env_offset ''BATCH_JOB_ARRAY_INDEX_OFFSET'' = Some ''10'' \<and>
   py_int ''10'' = Inr 10 \<and>
   compute_array_job_index env_offset = Inr 11 \<and>
   env_plain ''BATCH_JOB_ARRAY_INDEX_OFFSET'' = None \<and>
   compute_array_job_index env_plain = Inr 1 \<and>
   env_padded ''AWS_BATCH_JOB_ARRAY_INDEX'' = Some [CHR 0xA0, CHR ''7''] \<and>
   py_int [CHR 0xA0, CHR ''7''] = Inr 7 \<and>
   compute_array_job_index env_padded = Inr 7"
proof -
  have a: "env_offset ''BATCH_JOB_ARRAY_INDEX_VAR_NAME'' = Some ''AWS_BATCH_JOB_ARRAY_INDEX''"
    and b: "env_offset ''AWS_BATCH_JOB_ARRAY_INDEX'' = Some ''1''"
    and c: "env_offset ''BATCH_JOB_ARRAY_INDEX_OFFSET'' = Some ''10''"
    by (simp_all add: env_offset_def)
  have a': "env_plain ''BATCH_JOB_ARRAY_INDEX_VAR_NAME'' = Some ''AWS_BATCH_JOB_ARRAY_INDEX''"
    and b': "env_plain ''AWS_BATCH_JOB_ARRAY_INDEX'' = Some ''1''"
    and c': "env_plain ''BATCH_JOB_ARRAY_INDEX_OFFSET'' = None"
    by (simp_all add: env_plain_def)
  have a'': "env_padded ''BATCH_JOB_ARRAY_INDEX_VAR_NAME'' = Some ''AWS_BATCH_JOB_ARRAY_INDEX''"
    and b'': "env_padded ''AWS_BATCH_JOB_ARRAY_INDEX'' = Some [CHR 0xA0, CHR ''7'']"
    and c'': "env_padded ''BATCH_JOB_ARRAY_INDEX_OFFSET'' = None"
    by (simp_all add: env_padded_def)
  have p1: "py_int ''1'' = Inr 1" and p10: "py_int ''10'' = Inr 10"
    and p7: "py_int [CHR 0xA0, CHR ''7''] = Inr 7"
    by (simp_all add: py_int_eval)
  from resolve_sum[OF a b p1] c p10
  have "compute_array_job_index env_offset = Inr (10 + 1)" by blast
  moreover from resolve_sum[OF a' b' p1] c'
  have "compute_array_job_index env_plain = Inr 1" by blast
  moreover from resolve_sum[OF a'' b'' p7] c''
  have "compute_array_job_index env_padded = Inr 7" by blast
  ultimately show ?thesis using a b c a' b' c' b'' p1 p10 p7 by simp
qed

subsection \<open>Failure of the index computation\<close>

text \<open>
  Claim C4. When \<^verbatim>\<open>BATCH_JOB_ARRAY_INDEX_VAR_NAME\<close> is not set, or the variable it
  names is not set or holds a string that \<^verbatim>\<open>int\<close> rejects,
  \<^verbatim>\<open>_compute_array_job_index\<close> raises: a TypeError for a variable that is not set,
  a ValueError for a string that is not an integer. \<^verbatim>\<open>_execute_map_task\<close> passes
  the exception on as it is: the wrapped task is not called, the world is unchanged,
  and nothing is tried again.
\<close>

theorem resolve_fails:
  assumes "env ''BATCH_JOB_ARRAY_INDEX_VAR_NAME'' = None \<or>
           (\<exists>name. env ''BATCH_JOB_ARRAY_INDEX_VAR_NAME'' = Some name \<and>
              (env name = None \<or> (\<exists>s. env name = Some s \<and> py_int s = Inl ValueError)))"
  shows "\<exists>e. compute_array_job_index env = Inl e \<and> (e = TypeError \<or> e = ValueError) \<and>
           (\<forall>self kw w. execute_map_task env self kw w = (Inl e, w))"
  using assms
  by (auto simp: compute_array_job_index_def environ_get_def int_of_optional_def
      execute_map_task_def split: option.splits sum.splits dest: py_int_error)

text \<open>
  One environment without the naming variable, one where the named variable holds
  \<open>one\<close>, and one where it holds \<open>5\<close> between the separators 0x1C and 0x1F.
\<close>

theorem resolve_fails_witness:
  "env_unnamed ''BATCH_JOB_ARRAY_INDEX_VAR_NAME'' = None \<and>
   (\<exists>e. compute_array_job_index env_unnamed = Inl e \<and> (e = TypeError \<or> e = ValueError) \<and>
      (\<forall>self kw w. execute_map_task env_unnamed self kw w = (Inl e, w))) \<and>
   env_garbled ''BATCH_JOB_ARRAY_INDEX_VAR_NAME'' = Some ''AWS_BATCH_JOB_ARRAY_INDEX'' \<and>
   env_garbled ''AWS_BATCH_JOB_ARRAY_INDEX'' = Some ''one'' \<and>
   py_int ''one'' = Inl ValueError \<and>
   (\<exists>e. compute_array_job_index env_garbled = Inl e \<and> (e = TypeError \<or> e = ValueError) \<and>
      (\<forall>self kw w. execute_map_task env_garbled self kw w = (Inl e, w))) \<and>
   env_separators ''AWS_BATCH_JOB_ARRAY_INDEX'' = Some [CHR 0x1C, CHR ''5'', CHR 0x1F] \<and>
   py_int [CHR 0x1C, CHR ''5'', CHR 0x1F] = Inl ValueError \<and>
   (\<exists>e. compute_array_job_index env_separators = Inl e \<and> (e = TypeError \<or> e = ValueError) \<and>
      (\<forall>self kw w. execute_map_task env_separators self kw w = (Inl e, w)))"
proof -
  have a: "env_unnamed ''BATCH_JOB_ARRAY_INDEX_VAR_NAME'' = None"
    by (simp add: env_unnamed_def)
  have b: "env_garbled ''BATCH_JOB_ARRAY_INDEX_VAR_NAME'' = Some ''AWS_BATCH_JOB_ARRAY_INDEX''"
    and c: "env_garbled ''AWS_BATCH_JOB_ARRAY_INDEX'' = Some ''one''"
    by (simp_all add: env_garbled_def)
  have p: "py_int ''one'' = Inl ValueError"
    by (simp add: py_int_eval)
  have b': "env_separators ''BATCH_JOB_ARRAY_INDEX_VAR_NAME'' = Some ''AWS_BATCH_JOB_ARRAY_INDEX''"
    and c': "env_separators ''AWS_BATCH_JOB_ARRAY_INDEX'' = Some [CHR 0x1C, CHR ''5'', CHR 0x1F]"
    by (simp_all add: env_separators_def)
  have p': "py_int [CHR 0x1C, CHR ''5'', CHR 0x1F] = Inl ValueError"
    by (simp add: py_int_eval)
  from a have 1: "\<exists>e. compute_array_job_index env_unnamed = Inl e \<and> (e = TypeError \<or> e = ValueError) \<and>
      (\<forall>self kw w. execute_map_task env_unnamed self kw w = (Inl e, w))"
    by (intro resolve_fails) simp
  from b c p have 2: "\<exists>e. compute_array_job_index env_garbled = Inl e \<and> (e = TypeError \<or> e = ValueError) \<and>
      (\<forall>self kw w. execute_map_task env_garbled self kw w = (Inl e, w))"
    by (intro resolve_fails) simp
  from b' c' p' have 3: "\<exists>e. compute_array_job_index env_separators = Inl e \<and>
      (e = TypeError \<or> e = ValueError) \<and>
      (\<forall>self kw w. execute_map_task env_separators self kw w = (Inl e, w))"
    by (intro resolve_fails) simp
  from a b c p 1 2 c' p' 3 show ?thesis by blast
qed

subsection \<open>The shape of the returned value\<close>

text \<open>
  Claim C5 fails on the code in its half on one declared output, by the defect shown
  for claim C1: the doubling task declares exactly one output and returns the integer
  itself, line 165 raises TypeError at the first position, and so no collection is
  returned, in every context in which \<^verbatim>\<open>execute\<close> takes the local path.
\<close>

theorem raw_execute_one_output_no_collection:
  "length (outputs (task_interface bare_double_task)) = 1 \<and>
   execute (ctx_of LOCAL_WORKFLOW_EXECUTION) env_plain (MapPythonTask_init bare_double_task)
     [''a'' \<mapsto> ints [1, 2, 3]] [] = (Inl TypeError, [[(''a'', PInt 1)]]) \<and>
   execute (ctx_of LOCAL_TASK_EXECUTION) env_plain (MapPythonTask_init bare_double_task)
     [''a'' \<mapsto> ints [1, 2, 3]] [] = (Inl TypeError, [[(''a'', PInt 1)]]) \<and>
   execute ctx_none env_plain (MapPythonTask_init bare_double_task)
     [''a'' \<mapsto> ints [1, 2, 3]] [] = (Inl TypeError, [[(''a'', PInt 1)]])"
  by (simp add: execute_def run_eval task_eval bare_double_task_def bare_double_execute_def)

text \<open>
  Lines 167 to 170 themselves, when every position completes (each call returns a value
  that can be indexed at each accumulator position): one accumulator is returned as a
  bare list, \<open>k > 1\<close> accumulators as the tuple of the \<open>k\<close> lists in the order of
  declaration.
\<close>

lemma raw_execute_return_shape:
  assumes names: "same_names self"
    and keys0: "keys (inputs (task_interface (run_task self))) = key0 # rest"
    and c: "kw key0 = Some c" "py_len c = Inr N"
    and k: "k = length (outputs (task_interface (run_task self)))"
    and ok: "\<forall>i<N. completes (task_execute (run_task self))
                  (keys (inputs (interface self))) kw w True k i"
  shows "(k = 1 \<longrightarrow>
            fst (raw_execute ctx self kw w) =
              Inr (PList (map (\<lambda>i. projr (output_at (task_execute (run_task self))
                     (keys (inputs (interface self))) kw w i 0)) [0..<N]))) \<and>
         (1 < k \<longrightarrow>
            fst (raw_execute ctx self kw w) =
              Inr (PTuple (map (\<lambda>j. PList (map (\<lambda>i. projr (output_at
                     (task_execute (run_task self))
                     (keys (inputs (interface self))) kw w i j)) [0..<N])) [0..<k])))"
proof (cases "k = 0")
  case True
  then show ?thesis by simp
next
  case False
  let ?ex = "task_execute (run_task self)"
  let ?ks = "keys (inputs (interface self))"
  from names k False have len: "length (outputs_interface ctx self) = k"
    and oe: "outputs (interface self) \<noteq> []"
    by (auto simp: same_names_outputs)
  from raw_loop_completes[OF ok]
  have run: "raw_execute_outputs ctx self kw w =
      (Inr (accumulators ?ex ?ks kw w k N), world_before ?ex ?ks kw w N)"
    by (simp add: raw_execute_outputs_loop[where kw=kw, OF keys0 c] len oe)
  have one: "k = 1 \<Longrightarrow> return_outputs (accumulators ?ex ?ks kw w k N) =
      PList (map (\<lambda>i. projr (output_at ?ex ?ks kw w i 0)) [0..<N])"
    by (simp add: return_outputs_def length_accumulators nth_accumulators)
  have many: "1 < k \<Longrightarrow> return_outputs (accumulators ?ex ?ks kw w k N) =
      PTuple (map (\<lambda>j. PList (map (\<lambda>i. projr (output_at ?ex ?ks kw w i j)) [0..<N])) [0..<k])"
    by (simp add: return_outputs_def length_accumulators) (simp add: accumulators_def)
  from run one many show ?thesis
    by (simp add: raw_execute_def)
qed

text \<open>
  Two declared outputs, returned as a tuple, over three elements give a pair of
  three-element lists; one output returned in a one-element tuple gives a bare list.
\<close>

lemma raw_execute_return_shape_tuple_example:
  "fst (raw_execute ctx_none (MapPythonTask_init sum_product_task)
          [''a'' \<mapsto> ints [1, 2, 3], ''b'' \<mapsto> ints [4, 5, 6]] []) =
     Inr (PTuple [ints [5, 7, 9], ints [4, 10, 18]]) \<and>
   fst (raw_execute ctx_none (MapPythonTask_init double_task) [''a'' \<mapsto> ints [1, 2, 3]] []) =
     Inr (ints [2, 4, 6])"
proof -
  let ?M = "MapPythonTask_init sum_product_task"
  let ?kw = "[''a'' \<mapsto> ints [1, 2, 3], ''b'' \<mapsto> ints [4, 5, 6]]"
  let ?D = "MapPythonTask_init double_task"
  let ?kd = "[''a'' \<mapsto> ints [1, 2, 3]]"
  have m1: "same_names ?M"
    by (simp add: run_eval task_eval sum_product_task_def)
  have m2: "keys (inputs (task_interface (run_task ?M))) = ''a'' # [''b'']"
    by (simp add: task_eval sum_product_task_def)
  have m3: "?kw ''a'' = Some (ints [1, 2, 3])" and m4: "py_len (ints [1, 2, 3]) = Inr 3"
    by (simp_all add: ints_def)
  have m5: "2 = length (outputs (task_interface (run_task ?M)))"
    by (simp add: task_eval sum_product_task_def)
  have m6: "\<forall>i<3. completes (task_execute (run_task ?M)) (keys (inputs (interface ?M))) ?kw []
      True 2 i"
    by (simp add: numeral_3_eq_3 numeral_2_eq_2 All_less_Suc run_eval task_eval
        sum_product_task_def sum_product_execute_def)
  from raw_execute_return_shape[where kw = ?kw, OF m1 m2 m3 m4 m5 m6, of ctx_none]
  have "fst (raw_execute ctx_none ?M ?kw []) =
      Inr (PTuple (map (\<lambda>j. PList (map (\<lambda>i. projr (output_at (task_execute (run_task ?M))
             (keys (inputs (interface ?M))) ?kw [] i j)) [0..<3])) [0..<2]))"
    by simp
  then have pair: "fst (raw_execute ctx_none ?M ?kw []) =
      Inr (PTuple [ints [5, 7, 9], ints [4, 10, 18]])"
    by (simp add: numeral_3_eq_3 numeral_2_eq_2 call_at_def result_at_def output_at_def
        item_at_def dict_getitem_def seq_getitem_def int_arg_def task_eval
        sum_product_task_def sum_product_execute_def)
  have d1: "same_names ?D"
    by (simp add: run_eval task_eval double_task_def)
  have d2: "keys (inputs (task_interface (run_task ?D))) = ''a'' # []"
    by (simp add: task_eval double_task_def)
  have d3: "?kd ''a'' = Some (ints [1, 2, 3])"
    by simp
  have d5: "1 = length (outputs (task_interface (run_task ?D)))"
    by (simp add: task_eval double_task_def)
  have d6: "\<forall>i<3. completes (task_execute (run_task ?D)) (keys (inputs (interface ?D))) ?kd []
      True 1 i"
    by (simp add: numeral_3_eq_3 All_less_Suc run_eval task_eval
        double_task_def double_execute_def)
  from raw_execute_return_shape[where kw = ?kd, OF d1 d2 d3 m4 d5 d6, of ctx_none]
  have "fst (raw_execute ctx_none ?D ?kd []) =
      Inr (PList (map (\<lambda>i. projr (output_at (task_execute (run_task ?D))
             (keys (inputs (interface ?D))) ?kd [] i 0)) [0..<3]))"
    by simp
  then have bare: "fst (raw_execute ctx_none ?D ?kd []) = Inr (ints [2, 4, 6])"
    by (simp add: numeral_3_eq_3 call_at_def result_at_def output_at_def
        item_at_def dict_getitem_def seq_getitem_def int_arg_def task_eval
        double_task_def double_execute_def)
  from pair bare show ?thesis by simp
qed

subsection \<open>No declared output\<close>

text \<open>
  Claim C6, as the code has it. For an element task that declares no output,
  \<^verbatim>\<open>_raw_execute\<close> calls \<^verbatim>\<open>execute\<close> once per input position, in order, and
  returns the empty tuple: the tuple of its zero accumulators, not \<^verbatim>\<open>None\<close>.
\<close>

theorem raw_execute_no_outputs:
  assumes none: "outputs (interface self) = []" "outputs (task_interface (run_task self)) = []"
    and keys0: "keys (inputs (task_interface (run_task self))) = key0 # rest"
    and c: "kw key0 = Some c" "py_len c = Inr N"
    and ok: "\<forall>i<N. returns (result_at (task_execute (run_task self))
                  (keys (inputs (interface self))) kw w i)"
  shows "raw_execute ctx self kw w =
           (Inr (PTuple []), world_before (task_execute (run_task self))
                               (keys (inputs (interface self))) kw w N)"
proof -
  let ?ex = "task_execute (run_task self)"
  let ?ks = "keys (inputs (interface self))"
  from none have len: "length (outputs_interface ctx self) = 0"
    by (simp add: outputs_interface_def split: option.splits)
  from ok have "\<forall>i<N. completes ?ex ?ks kw w False 0 i"
    by (simp add: completes_def)
  from raw_loop_completes[OF this]
  have "raw_execute_outputs ctx self kw w = (Inr [], world_before ?ex ?ks kw w N)"
    by (simp add: raw_execute_outputs_loop[where kw=kw, OF keys0 c] len none)
  then show ?thesis
    by (simp add: raw_execute_def return_outputs_def)
qed

text \<open>A task without outputs over \<open>[1, 2, 3]\<close>: three calls, and the empty tuple.\<close>

theorem raw_execute_no_outputs_witness:
  "raw_execute ctx_none (MapPythonTask_init note_task) [''a'' \<mapsto> ints [1, 2, 3]] [] =
     (Inr (PTuple []), [[(''a'', PInt 1)], [(''a'', PInt 2)], [(''a'', PInt 3)]])"
proof -
  let ?M = "MapPythonTask_init note_task"
  let ?kw = "[''a'' \<mapsto> ints [1, 2, 3]]"
  have h1: "outputs (interface ?M) = []" and h2: "outputs (task_interface (run_task ?M)) = []"
    and h3: "keys (inputs (task_interface (run_task ?M))) = ''a'' # []"
    by (simp_all add: task_eval note_task_def)
  have h4: "?kw ''a'' = Some (ints [1, 2, 3])" and h5: "py_len (ints [1, 2, 3]) = Inr 3"
    by (simp_all add: ints_def)
  have h6: "\<forall>i<3. returns (result_at (task_execute (run_task ?M))
      (keys (inputs (interface ?M))) ?kw [] i)"
    by (simp add: numeral_3_eq_3 All_less_Suc run_eval task_eval note_task_def note_execute_def)
  have w: "world_before (task_execute (run_task ?M)) (keys (inputs (interface ?M))) ?kw [] 3 =
      [[(''a'', PInt 1)], [(''a'', PInt 2)], [(''a'', PInt 3)]]"
    by (simp add: numeral_3_eq_3 run_eval task_eval note_task_def note_execute_def)
  from raw_execute_no_outputs[where kw = ?kw, OF h1 h2 h3 h4 h5 h6, of ctx_none] w
  show ?thesis by simp
qed

text \<open>
  Claim C6 as the specification words it has no value returned. On the task without
  outputs over \<open>[1, 2, 3]\<close> the value returned is the empty tuple, which differs from
  \<^verbatim>\<open>None\<close>.
\<close>

theorem raw_execute_no_outputs_not_None:
  "fst (raw_execute ctx_none (MapPythonTask_init note_task) [''a'' \<mapsto> ints [1, 2, 3]] []) =
     Inr (PTuple []) \<and>
   fst (raw_execute ctx_none (MapPythonTask_init note_task) [''a'' \<mapsto> ints [1, 2, 3]] []) \<noteq>
     Inr PNone"
  by (simp add: run_eval task_eval note_task_def note_execute_def)

subsection \<open>The two output-interface queries\<close>

text \<open>
  Claim C7. \<^verbatim>\<open>_outputs_interface\<close> and \<^verbatim>\<open>get_type_for_output_var\<close> answer
  from the dispatcher's own interface when the context has an execution state whose mode
  is \<^verbatim>\<open>LOCAL_WORKFLOW_EXECUTION\<close>, and from the wrapped task's interface in every
  other context.
\<close>

theorem output_interface_duality:
  "((\<exists>es. execution_state ctx = Some es \<and> mode es = LOCAL_WORKFLOW_EXECUTION) \<longrightarrow>
      outputs_interface ctx self = outputs (interface self) \<and>
      get_type_for_output_var ctx self k v = lookup (outputs (python_interface self)) k) \<and>
   (\<not> (\<exists>es. execution_state ctx = Some es \<and> mode es = LOCAL_WORKFLOW_EXECUTION) \<longrightarrow>
      outputs_interface ctx self = outputs (task_interface (run_task self)) \<and>
      get_type_for_output_var ctx self k v =
        lookup (outputs (task_python_interface (run_task self))) k)"
  by (auto simp: outputs_interface_def get_type_for_output_var_def split: option.splits)

text \<open>
  The dispatcher of the doubling task: list types in a local workflow, the element's
  types in task execution and without an execution state.
\<close>

theorem output_interface_duality_witness:
  "outputs_interface (ctx_of LOCAL_WORKFLOW_EXECUTION) (MapPythonTask_init double_task) =
     [(''o0'', ''List[int]'')] \<and>
   get_type_for_output_var (ctx_of LOCAL_WORKFLOW_EXECUTION) (MapPythonTask_init double_task)
     ''o0'' PNone = Inr ''List[int]'' \<and>
   outputs_interface (ctx_of TASK_EXECUTION) (MapPythonTask_init double_task) =
     [(''o0'', ''int'')] \<and>
   get_type_for_output_var (ctx_of TASK_EXECUTION) (MapPythonTask_init double_task)
     ''o0'' PNone = Inr ''int'' \<and>
   outputs_interface ctx_none (MapPythonTask_init double_task) = [(''o0'', ''int'')] \<and>
   get_type_for_output_var ctx_none (MapPythonTask_init double_task) ''o0'' PNone = Inr ''int''"
  using output_interface_duality[of "ctx_of LOCAL_WORKFLOW_EXECUTION"
      "MapPythonTask_init double_task" "''o0''" PNone]
    output_interface_duality[of "ctx_of TASK_EXECUTION"
      "MapPythonTask_init double_task" "''o0''" PNone]
    output_interface_duality[of ctx_none "MapPythonTask_init double_task" "''o0''" PNone]
  by (simp add: double_task_def task_eval lookup_def)

subsection \<open>A failing element\<close>

text \<open>
  Claim C8. If the positions below \<open>i\<close> complete and \<^verbatim>\<open>execute\<close> raises \<open>e\<close>
  at position \<open>i\<close>, then \<^verbatim>\<open>_raw_execute\<close> raises \<open>e\<close>, and the world is the
  one that the failing call left: no later position is executed, no accumulator is
  returned, the call is not repeated.
\<close>

theorem raw_execute_propagates:
  assumes keys0: "keys (inputs (task_interface (run_task self))) = key0 # rest"
    and c: "kw key0 = Some c" "py_len c = Inr N"
    and i: "i < N"
    and before: "\<forall>p<i. completes (task_execute (run_task self))
                  (keys (inputs (interface self))) kw w
                  (outputs (interface self) \<noteq> []) (length (outputs_interface ctx self)) p"
    and d: "index_inputs kw (int i) (keys (inputs (interface self))) [] = Inr d"
    and raised: "task_execute (run_task self) d
                   (world_before (task_execute (run_task self))
                      (keys (inputs (interface self))) kw w i) = (Inl e, w')"
  shows "raw_execute ctx self kw w = (Inl e, w')"
proof -
  from d raised have "call_at (task_execute (run_task self)) (keys (inputs (interface self))) kw i
      (world_before (task_execute (run_task self)) (keys (inputs (interface self))) kw w i) =
      (Inl e, w')"
    by (simp add: call_at_def)
  from raw_loop_fails[OF before i this] show ?thesis
    by (simp add: raw_execute_def raw_execute_outputs_loop[where kw=kw, OF keys0 c])
qed

text \<open>
  A task that raises on 2, over \<open>[1, 2, 3]\<close>: the exception is passed on after two
  calls.
\<close>

theorem raw_execute_propagates_witness:
  "raw_execute ctx_none (MapPythonTask_init picky_task) [''a'' \<mapsto> ints [1, 2, 3]] [] =
     (Inl (Raised ''two''), [[(''a'', PInt 1)], [(''a'', PInt 2)]])"
proof -
  let ?M = "MapPythonTask_init picky_task"
  let ?kw = "[''a'' \<mapsto> ints [1, 2, 3]]"
  have h1: "keys (inputs (task_interface (run_task ?M))) = ''a'' # []"
    by (simp add: task_eval picky_task_def)
  have h2: "?kw ''a'' = Some (ints [1, 2, 3])" and h3: "py_len (ints [1, 2, 3]) = Inr 3"
    by (simp_all add: ints_def)
  have h4: "(1::nat) < 3" by simp
  have h5: "\<forall>p<1. completes (task_execute (run_task ?M)) (keys (inputs (interface ?M))) ?kw []
      (outputs (interface ?M) \<noteq> []) (length (outputs_interface ctx_none ?M)) p"
    by (simp add: run_eval task_eval picky_task_def picky_execute_def)
  have h6: "index_inputs ?kw (int 1) (keys (inputs (interface ?M))) [] = Inr [(''a'', PInt 2)]"
    by (simp add: run_eval task_eval picky_task_def)
  have h7: "task_execute (run_task ?M) [(''a'', PInt 2)]
      (world_before (task_execute (run_task ?M)) (keys (inputs (interface ?M))) ?kw [] 1) =
      (Inl (Raised ''two''), [[(''a'', PInt 1)], [(''a'', PInt 2)]])"
    by (simp add: run_eval task_eval picky_task_def picky_execute_def)
  from raw_execute_propagates[where kw = ?kw, OF h1 h2 h3 h4 h5 h6 h7]
  show ?thesis .
qed

subsection \<open>Collections of unequal length\<close>

text \<open>
  Claim C9. The loop of \<^verbatim>\<open>_raw_execute\<close> runs over \<^verbatim>\<open>range(N)\<close>, where \<open>N\<close>
  is the length of the collection bound to the first declared input; lengths are not
  compared. If the shortest collection among the declared inputs has length \<open>m < N\<close>
  and the positions below \<open>m\<close> complete, the run raises IndexError at position \<open>m\<close>,
  after the calls at the positions below \<open>m\<close>. If another keyword dictionary binds
  the first input to a collection of the same length \<open>N\<close> and agrees at every position
  below \<open>N\<close> of every declared input, the run is the same: elements at position \<open>N\<close>
  and beyond are not read.
\<close>

theorem raw_execute_unequal_lengths:
  assumes keys0: "keys (inputs (task_interface (run_task self))) = key0 # rest"
    and c: "kw key0 = Some c" "py_len c = Inr N"
  shows "raw_execute_outputs ctx self kw w =
           raw_loop (task_execute (run_task self)) (keys (inputs (interface self)))
             (outputs (interface self) \<noteq> []) kw [0..<N]
             (replicate (length (outputs_interface ctx self)) []) w \<and>
         ((\<forall>key\<in>set (keys (inputs (interface self))).
              \<exists>c' n. kw key = Some c' \<and> py_len c' = Inr n \<and> m \<le> n) \<and>
          (\<exists>key\<in>set (keys (inputs (interface self))).
              \<exists>c'. kw key = Some c' \<and> py_len c' = Inr m) \<and>
          m < N \<and>
          (\<forall>p<m. completes (task_execute (run_task self))
                  (keys (inputs (interface self))) kw w
                  (outputs (interface self) \<noteq> []) (length (outputs_interface ctx self)) p) \<longrightarrow>
          raw_execute ctx self kw w =
            (Inl IndexError, world_before (task_execute (run_task self))
                               (keys (inputs (interface self))) kw w m)) \<and>
         ((\<exists>c'. kw' key0 = Some c' \<and> py_len c' = Inr N) \<and>
          (\<forall>key\<in>set (keys (inputs (interface self))).
              \<forall>i<N. item_at kw' key (int i) = item_at kw key (int i)) \<longrightarrow>
          raw_execute ctx self kw' w = raw_execute ctx self kw w)"
proof (intro conjI impI)
  let ?ex = "task_execute (run_task self)"
  let ?ks = "keys (inputs (interface self))"
  let ?oe = "outputs (interface self) \<noteq> []"
  let ?k = "length (outputs_interface ctx self)"
  show loop: "raw_execute_outputs ctx self kw w =
      raw_loop ?ex ?ks ?oe kw [0..<N] (replicate ?k []) w"
    by (rule raw_execute_outputs_loop[where kw=kw, OF keys0 c])
  {
    assume a: "(\<forall>key\<in>set ?ks. \<exists>c' n. kw key = Some c' \<and> py_len c' = Inr n \<and> m \<le> n) \<and>
          (\<exists>key\<in>set ?ks. \<exists>c'. kw key = Some c' \<and> py_len c' = Inr m) \<and>
          m < N \<and> (\<forall>p<m. completes ?ex ?ks kw w ?oe ?k p)"
    have 1: "\<forall>key\<in>set ?ks. returns (item_at kw key (int m)) \<or> item_at kw key (int m) = Inl IndexError"
    proof
      fix key assume "key \<in> set ?ks"
      with a obtain c' n where "kw key = Some c'" "py_len c' = Inr n" by blast
      then show "returns (item_at kw key (int m)) \<or> item_at kw key (int m) = Inl IndexError"
        using item_at_seq[of kw key c' n m] by (cases "m < n") auto
    qed
    from a obtain key c' where "key \<in> set ?ks" "kw key = Some c'" "py_len c' = Inr m" by blast
    then have 2: "\<exists>key\<in>set ?ks. item_at kw key (int m) = Inl IndexError"
      using item_at_seq(2)[of kw key c' m m] by auto
    from index_inputs_short[OF 1 2]
    have "call_at ?ex ?ks kw m (world_before ?ex ?ks kw w m) =
        (Inl IndexError, world_before ?ex ?ks kw w m)"
      by (simp add: call_at_def)
    with a have "raw_loop ?ex ?ks ?oe kw [0..<N] (replicate ?k []) w =
        (Inl IndexError, world_before ?ex ?ks kw w m)"
      by (intro raw_loop_fails) auto
    with loop show "raw_execute ctx self kw w = (Inl IndexError, world_before ?ex ?ks kw w m)"
      by (simp add: raw_execute_def)
  }
  {
    assume b: "(\<exists>c'. kw' key0 = Some c' \<and> py_len c' = Inr N) \<and>
          (\<forall>key\<in>set ?ks. \<forall>i<N. item_at kw' key (int i) = item_at kw key (int i))"
    then obtain c' where c': "kw' key0 = Some c'" "py_len c' = Inr N" by blast
    have "\<forall>i\<in>set [0..<N]. index_inputs kw' (int i) ?ks [] = index_inputs kw (int i) ?ks []"
      using b by (auto intro!: index_inputs_cong)
    then have "raw_loop ?ex ?ks ?oe kw' [0..<N] (replicate ?k []) w =
        raw_loop ?ex ?ks ?oe kw [0..<N] (replicate ?k []) w"
      by (rule raw_loop_cong)
    then show "raw_execute ctx self kw' w = raw_execute ctx self kw w"
      by (simp add: raw_execute_def raw_execute_outputs_loop[where kw=kw, OF keys0 c]
          raw_execute_outputs_loop[where kw=kw', OF keys0 c'])
  }
qed

text \<open>
  With \<open>a = [1, 2, 3]\<close>: \<open>b = [4, 5]\<close> raises IndexError after two calls, and
  \<open>b = [4, 5, 6, 7, 8]\<close> runs as \<open>b = [4, 5, 6]\<close> does.
\<close>

theorem raw_execute_unequal_lengths_witness:
  "raw_execute ctx_none (MapPythonTask_init sum_product_task)
     [''a'' \<mapsto> ints [1, 2, 3], ''b'' \<mapsto> ints [4, 5]] [] =
     (Inl IndexError, [[(''a'', PInt 1), (''b'', PInt 4)], [(''a'', PInt 2), (''b'', PInt 5)]]) \<and>
   raw_execute ctx_none (MapPythonTask_init sum_product_task)
     [''a'' \<mapsto> ints [1, 2, 3], ''b'' \<mapsto> ints [4, 5, 6, 7, 8]] [] =
   raw_execute ctx_none (MapPythonTask_init sum_product_task)
     [''a'' \<mapsto> ints [1, 2, 3], ''b'' \<mapsto> ints [4, 5, 6]] []"
proof -
  let ?M = "MapPythonTask_init sum_product_task"
  let ?short = "[''a'' \<mapsto> ints [1, 2, 3], ''b'' \<mapsto> ints [4, 5]]"
  let ?long = "[''a'' \<mapsto> ints [1, 2, 3], ''b'' \<mapsto> ints [4, 5, 6, 7, 8]]"
  let ?even = "[''a'' \<mapsto> ints [1, 2, 3], ''b'' \<mapsto> ints [4, 5, 6]]"
  have k: "keys (inputs (task_interface (run_task ?M))) = ''a'' # [''b'']"
    by (simp add: task_eval sum_product_task_def)
  have l: "py_len (ints [1, 2, 3]) = Inr 3"
    by (simp add: ints_def)
  have s1: "?short ''a'' = Some (ints [1, 2, 3])" and e1: "?even ''a'' = Some (ints [1, 2, 3])"
    by simp_all
  have a1: "\<forall>key\<in>set (keys (inputs (interface ?M))).
      \<exists>c' n. ?short key = Some c' \<and> py_len c' = Inr n \<and> 2 \<le> n"
    by (simp add: task_eval sum_product_task_def)
  have a2: "\<exists>key\<in>set (keys (inputs (interface ?M))).
      \<exists>c'. ?short key = Some c' \<and> py_len c' = Inr 2"
    by (simp add: task_eval sum_product_task_def)
  have a3: "(2::nat) < 3" by simp
  have a4: "\<forall>p<2. completes (task_execute (run_task ?M)) (keys (inputs (interface ?M))) ?short []
      (outputs (interface ?M) \<noteq> []) (length (outputs_interface ctx_none ?M)) p"
    by (simp add: numeral_2_eq_2 All_less_Suc run_eval task_eval
        sum_product_task_def sum_product_execute_def)
  have w: "world_before (task_execute (run_task ?M)) (keys (inputs (interface ?M))) ?short [] 2 =
      [[(''a'', PInt 1), (''b'', PInt 4)], [(''a'', PInt 2), (''b'', PInt 5)]]"
    by (simp add: numeral_2_eq_2 run_eval task_eval sum_product_task_def sum_product_execute_def)
  from raw_execute_unequal_lengths[where kw = ?short, OF k s1 l, of ctx_none "[]" 2] a1 a2 a3 a4
  have "raw_execute ctx_none ?M ?short [] =
      (Inl IndexError, world_before (task_execute (run_task ?M))
         (keys (inputs (interface ?M))) ?short [] 2)"
    by blast
  with w have short: "raw_execute ctx_none ?M ?short [] =
      (Inl IndexError, [[(''a'', PInt 1), (''b'', PInt 4)], [(''a'', PInt 2), (''b'', PInt 5)]])"
    by simp
  have b1: "\<exists>c'. ?long ''a'' = Some c' \<and> py_len c' = Inr 3"
    by (simp add: ints_def)
  have b2: "\<forall>key\<in>set (keys (inputs (interface ?M))).
      \<forall>i<3. item_at ?long key (int i) = item_at ?even key (int i)"
    by (simp add: numeral_3_eq_3 All_less_Suc run_eval task_eval sum_product_task_def)
  from raw_execute_unequal_lengths[where kw = ?even, OF k e1 l, of ctx_none "[]" _ ?long] b1 b2
  have "raw_execute ctx_none ?M ?long [] = raw_execute ctx_none ?M ?even []"
    by blast
  with short show ?thesis by simp
qed

subsection \<open>No declared input\<close>

text \<open>
  Claim C10. For an element task that declares no input, \<^verbatim>\<open>_raw_execute\<close> raises
  IndexError when it takes the first input key, before any call of \<^verbatim>\<open>execute\<close>:
  the guard on \<^verbatim>\<open>items()\<close> compares with \<^verbatim>\<open>None\<close> and so always holds.
\<close>

theorem raw_execute_no_inputs:
  "inputs (task_interface (run_task self)) = [] \<Longrightarrow>
   raw_execute ctx self kw w = (Inl IndexError, w)"
  by (simp add: raw_execute_def raw_execute_outputs_def any_input_key_def keys_def)

text \<open>A task without inputs: IndexError, and no call is logged.\<close>

theorem raw_execute_no_inputs_witness:
  "inputs (task_interface (run_task (MapPythonTask_init constant_task))) = [] \<and>
   raw_execute ctx_none (MapPythonTask_init constant_task) Map.empty [] = (Inl IndexError, [])"
  using raw_execute_no_inputs[of "MapPythonTask_init constant_task" ctx_none Map.empty "[]"]
  by (simp add: constant_task_def task_eval)

end
